theory Spec2Isabelle
  imports Main
begin

section \<open>Strings and file names\<close>

text \<open>
  A \<open>QString\<close> is modelled as a \<^typ>\<open>string\<close>, a list of 8-bit characters. Every
  literal the classifier compares against is ASCII, and among the 8-bit characters only
  \<open>A\<close> to \<open>Z\<close> are mapped onto ASCII letters by lower-casing or case folding, so the
  case mapping is written on those letters.
\<close>

definition toLower_char :: "char \<Rightarrow> char" where
  "toLower_char c =
     (let n = (of_char c :: int) in if 65 \<le> n \<and> n \<le> 90 then char_of (n + 32) else c)"

text \<open>\<open>QString::toLower()\<close>.\<close>

definition toLower :: "string \<Rightarrow> string" where
  "toLower s = map toLower_char s"

text \<open>
  \<open>a.compare(b, Qt::CaseInsensitive) == 0\<close>: the two strings are equal after case
  folding. Only the comparison of the result with zero is used by the program.
\<close>

definition compare_CaseInsensitive_eq0 :: "string \<Rightarrow> string \<Rightarrow> bool" where
  "compare_CaseInsensitive_eq0 a b = (toLower a = toLower b)"

text \<open>
  \<open>QFileInfo::fileName()\<close>: the name of the file without the path, that is, the characters
  after the last \<open>/\<close>.
\<close>

definition QFileInfo_fileName :: "string \<Rightarrow> string" where
  "QFileInfo_fileName path = rev (takeWhile (\<lambda>c. c \<noteq> CHR ''/'') (rev path))"

text \<open>
  \<open>QFileInfo::completeSuffix()\<close>: all characters of the file name after, and not including,
  its first \<open>.\<close>; empty when the file name has no dot.
\<close>

definition QFileInfo_completeSuffix :: "string \<Rightarrow> string" where
  "QFileInfo_completeSuffix path =
     (case dropWhile (\<lambda>c. c \<noteq> CHR ''.'') (QFileInfo_fileName path) of
        [] \<Rightarrow> []
      | _ # suffix \<Rightarrow> suffix)"

section \<open>Data items\<close>

datatype DataType =
    Geodatabase | TilePackage | Shapefile | GeoPackage | SceneLayerPackage
  | VectorTilePackage | Markup | Kml | Raster | Unknown

record DataItem =
  fullPath :: string
  fileName :: string
  dataType :: DataType

definition rasterExtensions :: "string list" where
  "rasterExtensions =
     [''img'', ''tif'', ''tiff'', ''i1'', ''dt0'', ''dt1'', ''dt2'', ''tc2'', ''geotiff'',
      ''hr1'', ''jpg'', ''jpeg'', ''jp2'', ''ntf'', ''png'', ''i21'', ''sid'']"

text \<open>
  The \<open>if\<close>/\<open>else if\<close> chain of the \<open>DataItem\<close> constructor, on the complete suffix.
  The first test is \<open>operator==\<close>, the others compare case-insensitively.
\<close>

definition layerType :: "string \<Rightarrow> DataType" where
  "layerType fileExtension =
     (if fileExtension = ''geodatabase'' then Geodatabase
      else if compare_CaseInsensitive_eq0 fileExtension ''tpk'' then TilePackage
      else if compare_CaseInsensitive_eq0 fileExtension ''shp'' then Shapefile
      else if compare_CaseInsensitive_eq0 fileExtension ''gpkg'' then GeoPackage
      else if compare_CaseInsensitive_eq0 fileExtension ''slpk'' then SceneLayerPackage
      else if compare_CaseInsensitive_eq0 fileExtension ''vtpk'' then VectorTilePackage
      else if compare_CaseInsensitive_eq0 fileExtension ''markup'' then Markup
      else if compare_CaseInsensitive_eq0 fileExtension ''kml''
              \<or> compare_CaseInsensitive_eq0 fileExtension ''kmz'' then Kml
      else if toLower fileExtension \<in> set rasterExtensions then Raster
      else Unknown)"

text \<open>\<open>DataItemListModel::DataItem::DataItem(const QString& fullPath)\<close>.\<close>

definition DataItem_ctor :: "string \<Rightarrow> DataItem" where
  "DataItem_ctor path =
     \<lparr> fullPath = path,
       fileName = QFileInfo_fileName path,
       dataType = layerType (QFileInfo_completeSuffix path) \<rparr>"

section \<open>The list model\<close>

text \<open>
  The model's state is its list of items. The role-name table is filled once by the
  constructor and read by no operation below; the row-insertion and reset notifications
  carry no data of the model.
\<close>

record DataItemListModel =
  m_dataItems :: "DataItem list"

text \<open>
  The role numbers \<open>FullPathRole\<close> and \<open>FileNameRole\<close> are declared in a header that is not
  part of the sources at hand, so they are parameters. As labels of one \<open>switch\<close> they
  are distinct.
\<close>

record DataItemRoles =
  FullPathRole :: int
  FileNameRole :: int

record QModelIndex =
  row :: int

datatype QVariant = Invalid | QString_value string

datatype error = IndexOutOfRange

text \<open>
  \<open>QList::at(i)\<close> and \<open>QList::operator[](i)\<close> require \<open>0 \<le> i < size()\<close>; any other
  index is an out-of-bounds access, which is the error value here.
\<close>

definition QList_at :: "'a list \<Rightarrow> int \<Rightarrow> error + 'a" where
  "QList_at xs i =
     (if 0 \<le> i \<and> i < int (length xs) then Inr (xs ! nat i) else Inl IndexOutOfRange)"

definition addDataItem :: "DataItemListModel \<Rightarrow> string \<Rightarrow> DataItemListModel" where
  "addDataItem m path = m\<lparr> m_dataItems := m_dataItems m @ [DataItem_ctor path] \<rparr>"

definition rowCount :: "DataItemListModel \<Rightarrow> int" where
  "rowCount m = int (length (m_dataItems m))"

definition data :: "DataItemRoles \<Rightarrow> DataItemListModel \<Rightarrow> QModelIndex \<Rightarrow> int \<Rightarrow> error + QVariant" where
  "data roles m index role =
     (if row index < 0 \<or> row index \<ge> int (length (m_dataItems m)) then Inr Invalid
      else case QList_at (m_dataItems m) (row index) of
             Inl e \<Rightarrow> Inl e
           | Inr dataItem \<Rightarrow>
               (if role = FullPathRole roles then Inr (QString_value (fullPath dataItem))
                else if role = FileNameRole roles then Inr (QString_value (fileName dataItem))
                else Inr Invalid))"

definition clear :: "DataItemListModel \<Rightarrow> DataItemListModel" where
  "clear m = m\<lparr> m_dataItems := [] \<rparr>"

definition getDataItemType :: "DataItemListModel \<Rightarrow> int \<Rightarrow> error + DataType" where
  "getDataItemType m index =
     (if index \<ge> int (length (m_dataItems m)) then Inr Unknown
      else case QList_at (m_dataItems m) index of
             Inl e \<Rightarrow> Inl e
           | Inr dataItem \<Rightarrow> Inr (dataType dataItem))"

definition getDataItemPath :: "DataItemListModel \<Rightarrow> int \<Rightarrow> error + string" where
  "getDataItemPath m index =
     (if index \<ge> int (length (m_dataItems m)) then Inr []
      else case QList_at (m_dataItems m) index of
             Inl e \<Rightarrow> Inl e
           | Inr dataItem \<Rightarrow> Inr (fullPath dataItem))"

section \<open>The extension table, as the specification words it\<close>

text \<open>
  The specification describes the classification as a fixed table from extensions to
  tags, looked up without regard to case, except for \<open>geodatabase\<close>, which is matched
  literally. \<open>extensionTable\<close> and \<open>tableType\<close> follow that wording; \<open>layerType\<close> above
  follows the code.
\<close>

definition extensionTable :: "(string \<times> DataType) list" where
  "extensionTable =
     [(''tpk'', TilePackage), (''shp'', Shapefile), (''gpkg'', GeoPackage),
      (''slpk'', SceneLayerPackage), (''vtpk'', VectorTilePackage), (''markup'', Markup),
      (''kml'', Kml), (''kmz'', Kml)] @ map (\<lambda>e. (e, Raster)) rasterExtensions"

definition tableType :: "string \<Rightarrow> DataType" where
  "tableType suffix =
     (if suffix = ''geodatabase'' then Geodatabase
      else case map_of extensionTable (toLower suffix) of
             Some t \<Rightarrow> t
           | None \<Rightarrow> Unknown)"

section \<open>Sequences of operations on the list model\<close>

datatype operation =
    AddDataItem string
  | Clear
  | Data QModelIndex int
  | GetDataItemType int
  | GetDataItemPath int

text \<open>
  The state after one call. \<open>data\<close>, \<open>getDataItemType\<close> and \<open>getDataItemPath\<close> assign to
  no member, so a call that returns leaves the state as it was; a call that reads out of
  bounds has no defined state afterwards and is the error.
\<close>

fun apply_operation :: "DataItemRoles \<Rightarrow> DataItemListModel \<Rightarrow> operation \<Rightarrow> error + DataItemListModel" where
  "apply_operation roles m (AddDataItem path) = Inr (addDataItem m path)"
| "apply_operation roles m Clear = Inr (clear m)"
| "apply_operation roles m (Data index role) =
     (case data roles m index role of Inl e \<Rightarrow> Inl e | Inr _ \<Rightarrow> Inr m)"
| "apply_operation roles m (GetDataItemType index) =
     (case getDataItemType m index of Inl e \<Rightarrow> Inl e | Inr _ \<Rightarrow> Inr m)"
| "apply_operation roles m (GetDataItemPath index) =
     (case getDataItemPath m index of Inl e \<Rightarrow> Inl e | Inr _ \<Rightarrow> Inr m)"

fun apply_operations :: "DataItemRoles \<Rightarrow> DataItemListModel \<Rightarrow> operation list \<Rightarrow> error + DataItemListModel" where
  "apply_operations roles m [] = Inr m"
| "apply_operations roles m (x # xs) =
     (case apply_operation roles m x of
        Inl e \<Rightarrow> Inl e
      | Inr m' \<Rightarrow> apply_operations roles m' xs)"

text \<open>The model as its constructor leaves it.\<close>

definition DataItemListModel_ctor :: DataItemListModel where
  "DataItemListModel_ctor = \<lparr> m_dataItems = [] \<rparr>"

text \<open>An item is as its constructor made it from its path.\<close>

definition as_constructed :: "DataItem \<Rightarrow> bool" where
  "as_constructed d = (d = DataItem_ctor (fullPath d))"

section \<open>Unviewed alerts\<close>

text \<open>
  \<open>AlertConditionData\<close> and \<open>AlertListModel\<close> are declared outside the sources at hand. The
  controller reads an alert through \<open>active()\<close> and \<open>viewed()\<close> only, and the list through
  \<open>rowCount()\<close> and \<open>alertAt(i)\<close> only, so these are the fields; \<open>None\<close> is the null pointer.
\<close>

record AlertConditionData =
  active :: bool
  viewed :: bool

record AlertListModel =
  alerts_rowCount :: int
  alertAt :: "int \<Rightarrow> AlertConditionData option"

text \<open>
  The \<open>for\<close> loop of \<open>unviewedCount\<close>, with the loop variable \<open>i\<close> and the running
  \<open>count\<close>. Both stay between 0 and \<open>alertsCount\<close>, an \<open>int\<close>, so neither wraps.
\<close>

function unviewedCount_loop :: "AlertListModel \<Rightarrow> int \<Rightarrow> int \<Rightarrow> int \<Rightarrow> int" where
  "unviewedCount_loop model alertsCount i count =
     (if i < alertsCount then
        (case alertAt model i of
           None \<Rightarrow> unviewedCount_loop model alertsCount (i + 1) count
         | Some alert \<Rightarrow>
             if \<not> active alert then unviewedCount_loop model alertsCount (i + 1) count
             else if viewed alert then unviewedCount_loop model alertsCount (i + 1) count
             else unviewedCount_loop model alertsCount (i + 1) (count + 1))
      else count)"
  by pat_completeness auto
termination
  by (relation "measure (\<lambda>(model, alertsCount, i, count). nat (alertsCount - i))") auto

declare unviewedCount_loop.simps [simp del]

text \<open>
  \<open>ViewedAlertsController::unviewedCount()\<close>; the argument is what
  \<open>AlertListModel::instance()\<close> returns at the call.
\<close>

definition unviewedCount :: "AlertListModel option \<Rightarrow> int" where
  "unviewedCount instance =
     (case instance of
        None \<Rightarrow> 0
      | Some model \<Rightarrow> unviewedCount_loop model (alerts_rowCount model) 0 0)"

text \<open>An entry that is counted: present, active and not viewed.\<close>

definition active_unviewed :: "AlertConditionData option \<Rightarrow> bool" where
  "active_unviewed entry =
     (case entry of None \<Rightarrow> False | Some alert \<Rightarrow> active alert \<and> \<not> viewed alert)"

text \<open>The entries of the list, row by row.\<close>

definition entries :: "AlertListModel \<Rightarrow> AlertConditionData option list" where
  "entries model = map (alertAt model) [0..alerts_rowCount model - 1]"

section \<open>Alert sources\<close>

text \<open>
  What can be observed of an \<open>AlertSource\<close> while it is destroyed: the emission of
  \<open>noLongerValid\<close>, the call of each slot connected to it, and the end of the object in
  the destructor of its base class \<open>QObject\<close>. The dependents are the receivers connected
  to the signal, in the order they were connected.
\<close>

datatype event =
    Emit_noLongerValid
  | Slot_called nat
  | QObject_destroyed

record AlertSource =
  connections :: "nat list"

text \<open>
  \<open>emit noLongerValid()\<close>: the signal is emitted and each directly connected slot runs
  before the statement returns.
\<close>

definition emit_noLongerValid :: "AlertSource \<Rightarrow> event list" where
  "emit_noLongerValid source = Emit_noLongerValid # map Slot_called (connections source)"

text \<open>
  \<open>AlertSource::~AlertSource()\<close>: the body, then the destructor of the base class.
\<close>

definition AlertSource_dtor :: "AlertSource \<Rightarrow> event list" where
  "AlertSource_dtor source = emit_noLongerValid source @ [QObject_destroyed]"

section \<open>Sample states\<close>

text \<open>A list of three rows: an active unviewed alert, a null entry, an active viewed alert.\<close>

definition alerts3 :: AlertListModel where
  "alerts3 =
     \<lparr> alerts_rowCount = 3,
       alertAt = (\<lambda>i. if i = 0 then Some \<lparr> active = True, viewed = False \<rparr>
                       else if i = 1 then None
                       else Some \<lparr> active = True, viewed = True \<rparr>) \<rparr>"

text \<open>A list of two rows, both null.\<close>

definition alerts_null :: AlertListModel where
  "alerts_null = \<lparr> alerts_rowCount = 2, alertAt = (\<lambda>i. None) \<rparr>"

text \<open>Role numbers as the usual declaration after \<open>Qt::UserRole\<close> would give them.\<close>

definition roles_sample :: DataItemRoles where
  "roles_sample = \<lparr> FullPathRole = 257, FileNameRole = 258 \<rparr>"

text \<open>A model holding two items.\<close>

definition model2 :: DataItemListModel where
  "model2 = \<lparr> m_dataItems = [DataItem_ctor ''survey.shp'', DataItem_ctor ''/maps/image.TIF''] \<rparr>"

text \<open>An alert source with two connected receivers.\<close>

definition source2 :: AlertSource where
  "source2 = \<lparr> connections = [7, 9] \<rparr>"

section \<open>Clearing\<close>

text \<open>
  Claim C7. For every state of the model, \<open>clear()\<close> followed by \<open>rowCount()\<close> gives 0.
\<close>

theorem clear_rowCount: "rowCount (clear m) = 0"
  by (simp add: rowCount_def clear_def)

section \<open>Classification by extension\<close>

lemmas classify_defs = layerType_def compare_CaseInsensitive_eq0_def
lemmas lower_defs = toLower_def toLower_char_def char_of_def
lemmas path_defs = QFileInfo_completeSuffix_def QFileInfo_fileName_def

lemma layerType_tableType: "layerType s = tableType s"
proof (cases "s = ''geodatabase''")
  case True
  then show ?thesis by (simp add: layerType_def tableType_def)
next
  case False
  then show ?thesis
    by (simp add: classify_defs tableType_def extensionTable_def rasterExtensions_def lower_defs)
qed

text \<open>
  Claim C2. The tag a \<open>DataItem\<close> gets at construction is the entry of the fixed extension
  table for the complete suffix of its path, so two paths with the same complete suffix
  get the same tag; \<open>survey.shp\<close> is a Shapefile, \<open>area.markup\<close> is Markup, \<open>image.TIF\<close> is
  a Raster and \<open>x.unknownext\<close> is Unknown.
\<close>

theorem DataItem_dataType_table:
  "dataType (DataItem_ctor path) = tableType (QFileInfo_completeSuffix path)
   \<and> (QFileInfo_completeSuffix path = QFileInfo_completeSuffix path'
        \<longrightarrow> dataType (DataItem_ctor path) = dataType (DataItem_ctor path'))
   \<and> dataType (DataItem_ctor ''survey.shp'') = Shapefile
   \<and> dataType (DataItem_ctor ''area.markup'') = Markup
   \<and> dataType (DataItem_ctor ''image.TIF'') = Raster
   \<and> dataType (DataItem_ctor ''x.unknownext'') = Unknown"
proof -
  have t: "dataType (DataItem_ctor path) = tableType (QFileInfo_completeSuffix path)"
    by (simp add: DataItem_ctor_def layerType_tableType)
  have f: "QFileInfo_completeSuffix path = QFileInfo_completeSuffix path'
        \<longrightarrow> dataType (DataItem_ctor path) = dataType (DataItem_ctor path')"
    by (simp add: DataItem_ctor_def)
  have e1: "dataType (DataItem_ctor ''survey.shp'') = Shapefile"
    by (simp add: DataItem_ctor_def path_defs classify_defs lower_defs)
  have e2: "dataType (DataItem_ctor ''area.markup'') = Markup"
    by (simp add: DataItem_ctor_def path_defs classify_defs lower_defs)
  have e3: "dataType (DataItem_ctor ''image.TIF'') = Raster"
    by (simp add: DataItem_ctor_def path_defs classify_defs lower_defs rasterExtensions_def)
  have e4: "dataType (DataItem_ctor ''x.unknownext'') = Unknown"
    by (simp add: DataItem_ctor_def path_defs classify_defs lower_defs rasterExtensions_def)
  from t f e1 e2 e3 e4 show ?thesis by (intro conjI)
qed

theorem DataItem_dataType_table_witness:
  "QFileInfo_completeSuffix ''/maps/roads.SHP'' = QFileInfo_completeSuffix ''rivers.SHP''
   \<and> dataType (DataItem_ctor ''/maps/roads.SHP'') = dataType (DataItem_ctor ''rivers.SHP'')
   \<and> dataType (DataItem_ctor ''/maps/roads.SHP'') = tableType ''SHP''"
proof -
  have h: "QFileInfo_completeSuffix ''/maps/roads.SHP'' = QFileInfo_completeSuffix ''rivers.SHP''"
    by (simp add: path_defs)
  have s: "QFileInfo_completeSuffix ''/maps/roads.SHP'' = ''SHP''"
    by (simp add: path_defs)
  note t = DataItem_dataType_table [of "''/maps/roads.SHP''" "''rivers.SHP''"]
  from t have a: "dataType (DataItem_ctor ''/maps/roads.SHP'')
                  = tableType (QFileInfo_completeSuffix ''/maps/roads.SHP'')"
    by (elim conjE) assumption
  from t have "QFileInfo_completeSuffix ''/maps/roads.SHP'' = QFileInfo_completeSuffix ''rivers.SHP''
        \<longrightarrow> dataType (DataItem_ctor ''/maps/roads.SHP'') = dataType (DataItem_ctor ''rivers.SHP'')"
    by (elim conjE) assumption
  from this h have b: "dataType (DataItem_ctor ''/maps/roads.SHP'') = dataType (DataItem_ctor ''rivers.SHP'')"
    by (rule mp)
  from a s have c: "dataType (DataItem_ctor ''/maps/roads.SHP'') = tableType ''SHP''"
    by simp
  from h b c show ?thesis by (intro conjI)
qed

lemma layerType_not_geodatabase:
  assumes "s \<noteq> ''geodatabase''"
  shows "layerType s = TilePackage \<longleftrightarrow> toLower s = ''tpk''"
    and "layerType s = Shapefile \<longleftrightarrow> toLower s = ''shp''"
    and "layerType s = GeoPackage \<longleftrightarrow> toLower s = ''gpkg''"
    and "layerType s = SceneLayerPackage \<longleftrightarrow> toLower s = ''slpk''"
    and "layerType s = VectorTilePackage \<longleftrightarrow> toLower s = ''vtpk''"
    and "layerType s = Markup \<longleftrightarrow> toLower s = ''markup''"
    and "layerType s = Kml \<longleftrightarrow> toLower s = ''kml'' \<or> toLower s = ''kmz''"
    and "layerType s = Raster \<longleftrightarrow> toLower s \<in> set rasterExtensions"
  using assms
  by (auto simp add: classify_defs rasterExtensions_def lower_defs)

text \<open>
  Claim C4. A suffix is classified Geodatabase exactly when it is the lowercase spelling
  \<open>geodatabase\<close>; each other tag is decided by the lower-cased suffix alone, so two
  suffixes that differ only in case, neither being that spelling, get the same tag. The
  suffix \<open>GEODATABASE\<close> is not a Geodatabase (it is Unknown) and \<open>SHP\<close> is a Shapefile.
\<close>

theorem layerType_case_sensitivity:
  "(layerType s = Geodatabase \<longleftrightarrow> s = ''geodatabase'')
   \<and> (layerType s = TilePackage \<longleftrightarrow> toLower s = ''tpk'')
   \<and> (layerType s = Shapefile \<longleftrightarrow> toLower s = ''shp'')
   \<and> (layerType s = GeoPackage \<longleftrightarrow> toLower s = ''gpkg'')
   \<and> (layerType s = SceneLayerPackage \<longleftrightarrow> toLower s = ''slpk'')
   \<and> (layerType s = VectorTilePackage \<longleftrightarrow> toLower s = ''vtpk'')
   \<and> (layerType s = Markup \<longleftrightarrow> toLower s = ''markup'')
   \<and> (layerType s = Kml \<longleftrightarrow> toLower s = ''kml'' \<or> toLower s = ''kmz'')
   \<and> (layerType s = Raster \<longleftrightarrow> toLower s \<in> set rasterExtensions)
   \<and> (toLower s = toLower t \<and> s \<noteq> ''geodatabase'' \<and> t \<noteq> ''geodatabase''
        \<longrightarrow> layerType s = layerType t)
   \<and> layerType ''GEODATABASE'' = Unknown
   \<and> layerType ''SHP'' = Shapefile"
proof (cases "s = ''geodatabase''")
  case True
  have "layerType ''GEODATABASE'' = Unknown" "layerType ''SHP'' = Shapefile"
    by (simp_all add: classify_defs rasterExtensions_def lower_defs)
  moreover have "layerType s = Geodatabase" using True by (simp add: layerType_def)
  moreover have "toLower s = ''geodatabase''" using True by (simp add: lower_defs)
  ultimately show ?thesis using True by (simp add: rasterExtensions_def)
next
  case False
  have ex: "layerType ''GEODATABASE'' = Unknown" "layerType ''SHP'' = Shapefile"
    by (simp_all add: classify_defs rasterExtensions_def lower_defs)
  have g: "layerType s = Geodatabase \<longleftrightarrow> s = ''geodatabase''"
    by (simp add: classify_defs)
  have ci: "toLower s = toLower t \<and> s \<noteq> ''geodatabase'' \<and> t \<noteq> ''geodatabase''
        \<longrightarrow> layerType s = layerType t"
    by (simp add: classify_defs)
  from g layerType_not_geodatabase [OF False] ci ex show ?thesis by (intro conjI)
qed

theorem layerType_case_sensitivity_witness:
  "toLower ''TiFf'' = toLower ''tIfF'' \<and> layerType ''TiFf'' = Raster \<and> layerType ''tIfF'' = Raster"
proof -
  have l: "toLower ''TiFf'' = ''tiff''" "toLower ''tIfF'' = ''tiff''"
    by (simp_all add: lower_defs)
  have r: "''tiff'' \<in> set rasterExtensions"
    by (simp add: rasterExtensions_def)
  note t = layerType_case_sensitivity [of "''TiFf''" "''tIfF''"]
  from t have "layerType ''TiFf'' = Raster \<longleftrightarrow> toLower ''TiFf'' \<in> set rasterExtensions"
    by (elim conjE) assumption
  with l r have a: "layerType ''TiFf'' = Raster" by simp
  from t have "toLower ''TiFf'' = toLower ''tIfF'' \<and> ''TiFf'' \<noteq> ''geodatabase'' \<and> ''tIfF'' \<noteq> ''geodatabase''
        \<longrightarrow> layerType ''TiFf'' = layerType ''tIfF''"
    by (elim conjE) assumption
  with l have "layerType ''TiFf'' = layerType ''tIfF''" by simp
  with a have b: "layerType ''tIfF'' = Raster" by simp
  from l have e: "toLower ''TiFf'' = toLower ''tIfF''" by simp
  from e a b show ?thesis by (intro conjI)
qed

section \<open>Counting unviewed alerts\<close>

lemma unviewedCount_loop_count:
  "unviewedCount_loop m n i c
   = c + int (length (filter active_unviewed (map (alertAt m) [i..n - 1])))"
proof (induction m n i c rule: unviewedCount_loop.induct)
  case (1 model alertsCount i count)
  show ?case
  proof (cases "i < alertsCount")
    case False
    then show ?thesis by (simp add: unviewedCount_loop.simps [of model alertsCount i count])
  next
    case True
    then have up: "[i..alertsCount - 1] = i # [i + 1..alertsCount - 1]"
      by (simp add: upto_rec1)
    show ?thesis
    proof (cases "alertAt model i")
      case None
      with True "1.IH"(1) up show ?thesis
        by (simp add: unviewedCount_loop.simps [of model alertsCount i count] active_unviewed_def)
    next
      case (Some alert)
      with True "1.IH"(2-4) up show ?thesis
        by (simp add: unviewedCount_loop.simps [of model alertsCount i count] active_unviewed_def)
    qed
  qed
qed

lemma length_filter_upto_card:
  "length (filter P [i..j]) = card {k. i \<le> k \<and> k \<le> j \<and> P k}"
proof -
  have "length (filter P [i..j]) = card ({k. P k} \<inter> set [i..j])"
    by (rule distinct_length_filter) simp
  also have "{k. P k} \<inter> set [i..j] = {k. i \<le> k \<and> k \<le> j \<and> P k}" by auto
  finally show ?thesis .
qed

lemma filter_active_unviewed_map:
  "filter active_unviewed (map f xs)
   = map Some (filter (\<lambda>a. active a \<and> \<not> viewed a) (List.map_filter f xs))"
  by (induction xs) (auto simp: active_unviewed_def split: option.splits)

text \<open>
  Claim C1. Whatever the alert list holds at the call, \<open>unviewedCount()\<close> is the number of
  its rows whose entry is active and not viewed. The result is a function of the list as
  it is at the call and of nothing else: the controller keeps no earlier result.
\<close>

theorem unviewedCount_counts:
  "unviewedCount (Some model) = int (length (filter active_unviewed (entries model)))
   \<and> unviewedCount (Some model) =
       int (card {i. 0 \<le> i \<and> i < alerts_rowCount model
                   \<and> (\<exists>alert. alertAt model i = Some alert \<and> active alert \<and> \<not> viewed alert)})"
proof -
  have a: "unviewedCount (Some model) = int (length (filter active_unviewed (entries model)))"
    by (simp add: unviewedCount_def unviewedCount_loop_count entries_def)
  have "length (filter active_unviewed (entries model))
        = length (filter (\<lambda>i. active_unviewed (alertAt model i)) [0..alerts_rowCount model - 1])"
    by (simp add: entries_def filter_map comp_def)
  also have "\<dots> = card {k. 0 \<le> k \<and> k \<le> alerts_rowCount model - 1
                          \<and> active_unviewed (alertAt model k)}"
    by (rule length_filter_upto_card)
  also have "{k. 0 \<le> k \<and> k \<le> alerts_rowCount model - 1 \<and> active_unviewed (alertAt model k)}
     = {i. 0 \<le> i \<and> i < alerts_rowCount model
           \<and> (\<exists>alert. alertAt model i = Some alert \<and> active alert \<and> \<not> viewed alert)}"
    by (auto simp: active_unviewed_def split: option.splits)
  finally show ?thesis using a by simp
qed

theorem unviewedCount_counts_witness:
  "entries alerts3 = [Some \<lparr> active = True, viewed = False \<rparr>, None,
                      Some \<lparr> active = True, viewed = True \<rparr>]
   \<and> unviewedCount (Some alerts3) = 1"
  using unviewedCount_counts [of alerts3]
  by (simp add: entries_def alerts3_def active_unviewed_def upto_rec1)

text \<open>
  Claim C10. With no alert list (a null singleton) \<open>unviewedCount()\<close> is 0. With a list,
  the loop passes over a null entry without changing the count, the result is the number
  of active unviewed alerts among the non-null entries, and it is 0 when every entry is
  null.
\<close>

theorem unviewedCount_null:
  "unviewedCount None = 0
   \<and> unviewedCount (Some model) =
       int (length (filter (\<lambda>alert. active alert \<and> \<not> viewed alert)
                      (List.map_filter (alertAt model) [0..alerts_rowCount model - 1])))
   \<and> ((\<forall>i. 0 \<le> i \<and> i < alerts_rowCount model \<longrightarrow> alertAt model i = None)
        \<longrightarrow> unviewedCount (Some model) = 0)
   \<and> (i < alertsCount \<and> alertAt model i = None
        \<longrightarrow> unviewedCount_loop model alertsCount i count
            = unviewedCount_loop model alertsCount (i + 1) count)"
proof -
  have n: "unviewedCount None = 0" by (simp add: unviewedCount_def)
  have c: "unviewedCount (Some model) =
       int (length (filter (\<lambda>alert. active alert \<and> \<not> viewed alert)
                      (List.map_filter (alertAt model) [0..alerts_rowCount model - 1])))"
    by (simp add: unviewedCount_def unviewedCount_loop_count filter_active_unviewed_map)
  have z: "(\<forall>i. 0 \<le> i \<and> i < alerts_rowCount model \<longrightarrow> alertAt model i = None)
        \<longrightarrow> unviewedCount (Some model) = 0"
  proof
    assume h: "\<forall>i. 0 \<le> i \<and> i < alerts_rowCount model \<longrightarrow> alertAt model i = None"
    have "filter active_unviewed (map (alertAt model) [0..alerts_rowCount model - 1]) = []"
      using h by (auto simp: filter_empty_conv active_unviewed_def)
    then show "unviewedCount (Some model) = 0"
      by (simp add: unviewedCount_def unviewedCount_loop_count)
  qed
  have s: "i < alertsCount \<and> alertAt model i = None
        \<longrightarrow> unviewedCount_loop model alertsCount i count
            = unviewedCount_loop model alertsCount (i + 1) count"
    by (simp add: unviewedCount_loop.simps [of model alertsCount i count])
  from n c z s show ?thesis by (intro conjI)
qed

theorem unviewedCount_null_witness:
  "alertAt alerts_null 0 = None \<and> alertAt alerts_null 1 = None
   \<and> unviewedCount (Some alerts_null) = 0
   \<and> (1::int) < 3 \<and> alertAt alerts3 1 = None
   \<and> unviewedCount_loop alerts3 3 1 1 = unviewedCount_loop alerts3 3 2 1"
proof -
  have h: "\<forall>i. 0 \<le> i \<and> i < alerts_rowCount alerts_null \<longrightarrow> alertAt alerts_null i = None"
    by (simp add: alerts_null_def)
  have h': "alertAt alerts_null 0 = None \<and> alertAt alerts_null 1 = None"
    by (simp add: alerts_null_def)
  from unviewedCount_null [of alerts_null 0 0 0]
  have "(\<forall>i. 0 \<le> i \<and> i < alerts_rowCount alerts_null \<longrightarrow> alertAt alerts_null i = None)
        \<longrightarrow> unviewedCount (Some alerts_null) = 0"
    by (elim conjE) assumption
  from this h have a: "unviewedCount (Some alerts_null) = 0" by (rule mp)
  have k: "(1::int) < 3 \<and> alertAt alerts3 1 = None"
    by (simp add: alerts3_def)
  from unviewedCount_null [of alerts3 1 3 1]
  have "(1::int) < 3 \<and> alertAt alerts3 1 = None
        \<longrightarrow> unviewedCount_loop alerts3 3 1 1 = unviewedCount_loop alerts3 3 (1 + 1) 1"
    by (elim conjE) assumption
  from this k have "unviewedCount_loop alerts3 3 1 1 = unviewedCount_loop alerts3 3 (1 + 1) 1"
    by (rule mp)
  then have b: "unviewedCount_loop alerts3 3 1 1 = unviewedCount_loop alerts3 3 2 1" by simp
  from h' a k b show ?thesis by simp
qed

section \<open>Reading and growing the list model\<close>

text \<open>
  Claim C5. With distinct role numbers, \<open>data(index, role)\<close> returns the stored item's
  \<open>fullPath\<close> for \<open>FullPathRole\<close> and its \<open>fileName\<close> for \<open>FileNameRole\<close> when the row is
  in \<open>[0, count)\<close>, and an invalid \<open>QVariant\<close> when the row is negative, at least the
  count, or the role is any other number. It never reads out of bounds.
\<close>

theorem data_result:
  assumes "FullPathRole roles \<noteq> FileNameRole roles"
  shows "(0 \<le> row index \<and> row index < rowCount m \<longrightarrow>
            data roles m index (FullPathRole roles)
              = Inr (QString_value (fullPath (m_dataItems m ! nat (row index))))
          \<and> data roles m index (FileNameRole roles)
              = Inr (QString_value (fileName (m_dataItems m ! nat (row index)))))
       \<and> (row index < 0 \<or> row index \<ge> rowCount m
            \<or> (role \<noteq> FullPathRole roles \<and> role \<noteq> FileNameRole roles)
          \<longrightarrow> data roles m index role = Inr Invalid)"
  using assms
  by (auto simp add: data_def rowCount_def QList_at_def)

theorem data_result_witness:
  "FullPathRole roles_sample \<noteq> FileNameRole roles_sample
   \<and> data roles_sample model2 \<lparr> row = 1 \<rparr> 257 = Inr (QString_value ''/maps/image.TIF'')
   \<and> data roles_sample model2 \<lparr> row = 1 \<rparr> 258 = Inr (QString_value ''image.TIF'')
   \<and> data roles_sample model2 \<lparr> row = 2 \<rparr> 257 = Inr Invalid
   \<and> data roles_sample model2 \<lparr> row = - 1 \<rparr> 258 = Inr Invalid
   \<and> data roles_sample model2 \<lparr> row = 0 \<rparr> 0 = Inr Invalid"
proof -
  have d: "FullPathRole roles_sample \<noteq> FileNameRole roles_sample"
    by (simp add: roles_sample_def)
  have r: "FullPathRole roles_sample = 257" "FileNameRole roles_sample = 258"
    by (simp_all add: roles_sample_def)
  have n: "rowCount model2 = 2"
    by (simp add: rowCount_def model2_def)
  have i: "fullPath (m_dataItems model2 ! Suc 0) = ''/maps/image.TIF''"
    "fileName (m_dataItems model2 ! Suc 0) = ''image.TIF''"
    by (simp_all add: model2_def DataItem_ctor_def QFileInfo_fileName_def)
  from data_result [OF d, of "\<lparr> row = 1 \<rparr>" model2 0]
  have a: "data roles_sample model2 \<lparr> row = 1 \<rparr> 257 = Inr (QString_value ''/maps/image.TIF'')"
    and b: "data roles_sample model2 \<lparr> row = 1 \<rparr> 258 = Inr (QString_value ''image.TIF'')"
    by (simp_all add: r n i)
  from data_result [OF d, of "\<lparr> row = 2 \<rparr>" model2 257]
  have c: "data roles_sample model2 \<lparr> row = 2 \<rparr> 257 = Inr Invalid"
    by (simp add: n)
  from data_result [OF d, of "\<lparr> row = - 1 \<rparr>" model2 258]
  have e: "data roles_sample model2 \<lparr> row = - 1 \<rparr> 258 = Inr Invalid"
    by (simp add: n)
  from data_result [OF d, of "\<lparr> row = 0 \<rparr>" model2 0]
  have g: "data roles_sample model2 \<lparr> row = 0 \<rparr> 0 = Inr Invalid"
    by (simp add: n r)
  from d a b c e g show ?thesis by (intro conjI)
qed

lemma m_dataItems_foldl_addDataItem:
  "m_dataItems (foldl addDataItem m paths) = m_dataItems m @ map DataItem_ctor paths"
  by (induction paths arbitrary: m) (simp_all add: addDataItem_def)

text \<open>
  Claim C6. From a state with \<open>k\<close> rows, \<open>N\<close> calls of \<open>addDataItem\<close> give \<open>k + N\<close> rows;
  the row \<open>k + j\<close> then holds the \<open>j\<close>-th appended path (and, for distinct role numbers,
  its file name), and every earlier row answers \<open>data\<close> as before.
\<close>

theorem addDataItem_appends:
  "rowCount (foldl addDataItem m paths) = rowCount m + int (length paths)
   \<and> (\<forall>j < length paths.
         data roles (foldl addDataItem m paths) \<lparr> row = rowCount m + int j \<rparr> (FullPathRole roles)
           = Inr (QString_value (paths ! j)))
   \<and> (\<forall>j < length paths. FullPathRole roles \<noteq> FileNameRole roles \<longrightarrow>
         data roles (foldl addDataItem m paths) \<lparr> row = rowCount m + int j \<rparr> (FileNameRole roles)
           = Inr (QString_value (QFileInfo_fileName (paths ! j))))
   \<and> (\<forall>i < length (m_dataItems m). \<forall>role.
         data roles (foldl addDataItem m paths) \<lparr> row = int i \<rparr> role
           = data roles m \<lparr> row = int i \<rparr> role)"
proof -
  let ?m' = "foldl addDataItem m paths"
  have items: "m_dataItems ?m' = m_dataItems m @ map DataItem_ctor paths"
    by (rule m_dataItems_foldl_addDataItem)
  have a: "rowCount ?m' = rowCount m + int (length paths)"
    by (simp add: rowCount_def items)
  have b: "\<forall>j < length paths.
         data roles ?m' \<lparr> row = rowCount m + int j \<rparr> (FullPathRole roles)
           = Inr (QString_value (paths ! j))"
  proof (intro allI impI)
    fix j assume j: "j < length paths"
    have n: "nat (int (length (m_dataItems m)) + int j) = length (m_dataItems m) + j"
      by simp
    show "data roles ?m' \<lparr> row = rowCount m + int j \<rparr> (FullPathRole roles)
           = Inr (QString_value (paths ! j))"
      using j by (simp add: data_def QList_at_def items rowCount_def n nth_append DataItem_ctor_def)
  qed
  have b': "\<forall>j < length paths. FullPathRole roles \<noteq> FileNameRole roles \<longrightarrow>
         data roles ?m' \<lparr> row = rowCount m + int j \<rparr> (FileNameRole roles)
           = Inr (QString_value (QFileInfo_fileName (paths ! j)))"
  proof (intro allI impI)
    fix j assume j: "j < length paths" and d: "FullPathRole roles \<noteq> FileNameRole roles"
    have n: "nat (int (length (m_dataItems m)) + int j) = length (m_dataItems m) + j"
      by simp
    from d have d': "FileNameRole roles \<noteq> FullPathRole roles" by simp
    show "data roles ?m' \<lparr> row = rowCount m + int j \<rparr> (FileNameRole roles)
           = Inr (QString_value (QFileInfo_fileName (paths ! j)))"
      using j d' by (simp add: data_def QList_at_def items rowCount_def n nth_append DataItem_ctor_def)
  qed
  have c: "\<forall>i < length (m_dataItems m). \<forall>role.
         data roles ?m' \<lparr> row = int i \<rparr> role = data roles m \<lparr> row = int i \<rparr> role"
    by (simp add: data_def QList_at_def items nth_append)
  from a b b' c show ?thesis by (intro conjI)
qed

theorem addDataItem_appends_witness:
  "rowCount model2 = 2
   \<and> rowCount (foldl addDataItem model2 [''a.kml'', ''/x/b.gpkg'']) = 4
   \<and> data roles_sample (foldl addDataItem model2 [''a.kml'', ''/x/b.gpkg'']) \<lparr> row = 2 \<rparr> 257
       = Inr (QString_value ''a.kml'')
   \<and> data roles_sample (foldl addDataItem model2 [''a.kml'', ''/x/b.gpkg'']) \<lparr> row = 3 \<rparr> 257
       = Inr (QString_value ''/x/b.gpkg'')
   \<and> data roles_sample (foldl addDataItem model2 [''a.kml'', ''/x/b.gpkg'']) \<lparr> row = 3 \<rparr> 258
       = Inr (QString_value ''b.gpkg'')
   \<and> data roles_sample (foldl addDataItem model2 [''a.kml'', ''/x/b.gpkg'']) \<lparr> row = 0 \<rparr> 257
       = data roles_sample model2 \<lparr> row = 0 \<rparr> 257"
proof -
  let ?ps = "[''a.kml'', ''/x/b.gpkg'']"
  have r: "FullPathRole roles_sample = 257" "FileNameRole roles_sample = 258"
    by (simp_all add: roles_sample_def)
  have n: "rowCount model2 = 2"
    by (simp add: rowCount_def model2_def)
  have l: "length (m_dataItems model2) = 2"
    by (simp add: model2_def)
  note t = addDataItem_appends [of model2 ?ps roles_sample]
  from t have "rowCount (foldl addDataItem model2 ?ps) = rowCount model2 + int (length ?ps)"
    by (elim conjE) assumption
  then have a: "rowCount (foldl addDataItem model2 ?ps) = 4" by (simp add: n)
  from t have b: "\<forall>j < length ?ps.
         data roles_sample (foldl addDataItem model2 ?ps) \<lparr> row = rowCount model2 + int j \<rparr>
           (FullPathRole roles_sample) = Inr (QString_value (?ps ! j))"
    by (elim conjE) assumption
  from b [rule_format, of 0]
  have b0: "data roles_sample (foldl addDataItem model2 ?ps) \<lparr> row = 2 \<rparr> 257
       = Inr (QString_value ''a.kml'')"
    by (simp add: n r)
  from b [rule_format, of 1]
  have b1: "data roles_sample (foldl addDataItem model2 ?ps) \<lparr> row = 3 \<rparr> 257
       = Inr (QString_value ''/x/b.gpkg'')"
    by (simp add: n r)
  from t have c: "\<forall>j < length ?ps. FullPathRole roles_sample \<noteq> FileNameRole roles_sample \<longrightarrow>
         data roles_sample (foldl addDataItem model2 ?ps) \<lparr> row = rowCount model2 + int j \<rparr>
           (FileNameRole roles_sample) = Inr (QString_value (QFileInfo_fileName (?ps ! j)))"
    by (elim conjE) assumption
  from c [rule_format, of 1]
  have c1: "data roles_sample (foldl addDataItem model2 ?ps) \<lparr> row = 3 \<rparr> 258
       = Inr (QString_value ''b.gpkg'')"
    by (simp add: n r QFileInfo_fileName_def)
  from t have d: "\<forall>i < length (m_dataItems model2). \<forall>role.
         data roles_sample (foldl addDataItem model2 ?ps) \<lparr> row = int i \<rparr> role
           = data roles_sample model2 \<lparr> row = int i \<rparr> role"
    by (elim conjE) assumption
  from d [rule_format, of 0 257]
  have d0: "data roles_sample (foldl addDataItem model2 ?ps) \<lparr> row = 0 \<rparr> 257
       = data roles_sample model2 \<lparr> row = 0 \<rparr> 257"
    by (simp add: l)
  from n a b0 b1 c1 d0 show ?thesis by (intro conjI)
qed

text \<open>
  Claim C3. The accessors test the index against the upper bound only: at index \<open>-1\<close>,
  on a model holding one item, \<open>getDataItemType\<close> and \<open>getDataItemPath\<close> both reach
  \<open>QList::at\<close> with an invalid index instead of returning \<open>Unknown\<close> and the empty string.
\<close>

theorem getDataItem_negative_index:
  "getDataItemType \<lparr> m_dataItems = [DataItem_ctor ''survey.shp''] \<rparr> (- 1) = Inl IndexOutOfRange
   \<and> getDataItemPath \<lparr> m_dataItems = [DataItem_ctor ''survey.shp''] \<rparr> (- 1) = Inl IndexOutOfRange"
  by (simp add: getDataItemType_def getDataItemPath_def QList_at_def)

lemma getDataItem_bounds:
  "(index \<ge> rowCount m \<longrightarrow> getDataItemType m index = Inr Unknown \<and> getDataItemPath m index = Inr [])
  \<and> (index < 0 \<longrightarrow> getDataItemType m index = Inl IndexOutOfRange \<and> getDataItemPath m index = Inl IndexOutOfRange)"
  by (auto simp add: getDataItemType_def getDataItemPath_def QList_at_def rowCount_def)

lemma apply_operation_items:
  assumes "apply_operation roles m x = Inr m'"
  shows "m_dataItems m' = m_dataItems m
         \<or> (\<exists>path. x = AddDataItem path \<and> m_dataItems m' = m_dataItems m @ [DataItem_ctor path])
         \<or> (x = Clear \<and> m_dataItems m' = [])"
  using assms
  by (cases x) (auto simp: addDataItem_def clear_def split: sum.splits)

lemma as_constructed_DataItem_ctor: "as_constructed (DataItem_ctor path)"
  by (simp add: as_constructed_def DataItem_ctor_def)

lemma apply_operations_as_constructed:
  "apply_operations roles m xs = Inr m' \<Longrightarrow> \<forall>d \<in> set (m_dataItems m). as_constructed d
   \<Longrightarrow> \<forall>d \<in> set (m_dataItems m'). as_constructed d"
proof (induction xs arbitrary: m)
  case Nil
  then show ?case by simp
next
  case (Cons x xs)
  from Cons.prems(1) obtain m1 where s: "apply_operation roles m x = Inr m1"
    and r: "apply_operations roles m1 xs = Inr m'"
    by (auto split: sum.splits)
  from apply_operation_items [OF s] Cons.prems(2)
  have "\<forall>d \<in> set (m_dataItems m1). as_constructed d"
    by (auto simp: as_constructed_DataItem_ctor)
  with Cons.IH [OF r] show ?case by simp
qed

text \<open>
  Claim C8. A call of \<open>addDataItem\<close>, \<open>clear\<close>, \<open>data\<close> or an accessor that returns leaves
  every item still stored at its row unchanged, and every call but \<open>clear\<close> keeps all the
  items there were. So in every state reached from the constructor each stored item
  still has the file name and the tag its constructor computed from its path.
\<close>

theorem items_never_mutated:
  "(apply_operation roles m x = Inr m' \<longrightarrow>
      (\<forall>i < length (m_dataItems m'). i < length (m_dataItems m)
          \<longrightarrow> m_dataItems m' ! i = m_dataItems m ! i)
      \<and> (x \<noteq> Clear \<longrightarrow> take (length (m_dataItems m)) (m_dataItems m') = m_dataItems m))
   \<and> (apply_operations roles DataItemListModel_ctor xs = Inr m'' \<longrightarrow>
        (\<forall>d \<in> set (m_dataItems m'').
           fileName d = QFileInfo_fileName (fullPath d)
           \<and> dataType d = layerType (QFileInfo_completeSuffix (fullPath d))))"
proof -
  have a: "apply_operation roles m x = Inr m' \<longrightarrow>
      (\<forall>i < length (m_dataItems m'). i < length (m_dataItems m)
          \<longrightarrow> m_dataItems m' ! i = m_dataItems m ! i)
      \<and> (x \<noteq> Clear \<longrightarrow> take (length (m_dataItems m)) (m_dataItems m') = m_dataItems m)"
  proof
    assume "apply_operation roles m x = Inr m'"
    from apply_operation_items [OF this]
    show "(\<forall>i < length (m_dataItems m'). i < length (m_dataItems m)
          \<longrightarrow> m_dataItems m' ! i = m_dataItems m ! i)
      \<and> (x \<noteq> Clear \<longrightarrow> take (length (m_dataItems m)) (m_dataItems m') = m_dataItems m)"
      by (auto simp: nth_append)
  qed
  have b: "apply_operations roles DataItemListModel_ctor xs = Inr m'' \<longrightarrow>
        (\<forall>d \<in> set (m_dataItems m'').
           fileName d = QFileInfo_fileName (fullPath d)
           \<and> dataType d = layerType (QFileInfo_completeSuffix (fullPath d)))"
  proof
    assume r: "apply_operations roles DataItemListModel_ctor xs = Inr m''"
    have "\<forall>d \<in> set (m_dataItems DataItemListModel_ctor). as_constructed d"
      by (simp add: DataItemListModel_ctor_def)
    from apply_operations_as_constructed [OF r this]
    have "\<forall>d \<in> set (m_dataItems m''). as_constructed d" .
    then show "\<forall>d \<in> set (m_dataItems m'').
           fileName d = QFileInfo_fileName (fullPath d)
           \<and> dataType d = layerType (QFileInfo_completeSuffix (fullPath d))"
    proof (intro ballI)
      fix d assume "d \<in> set (m_dataItems m'')"
      with \<open>\<forall>d \<in> set (m_dataItems m''). as_constructed d\<close> have "d = DataItem_ctor (fullPath d)"
        by (simp add: as_constructed_def)
      then have "fileName d = fileName (DataItem_ctor (fullPath d))"
        and "dataType d = dataType (DataItem_ctor (fullPath d))" by simp_all
      then show "fileName d = QFileInfo_fileName (fullPath d)
           \<and> dataType d = layerType (QFileInfo_completeSuffix (fullPath d))"
        by (simp add: DataItem_ctor_def)
    qed
  qed
  from a b show ?thesis by (intro conjI)
qed

theorem items_never_mutated_witness:
  "apply_operation roles_sample model2 (AddDataItem ''c.png'') = Inr (addDataItem model2 ''c.png'')
   \<and> m_dataItems (addDataItem model2 ''c.png'') ! 1 = m_dataItems model2 ! 1
   \<and> take 2 (m_dataItems (addDataItem model2 ''c.png'')) = m_dataItems model2
   \<and> apply_operations roles_sample DataItemListModel_ctor
        [AddDataItem ''survey.shp'', GetDataItemType 0, Clear, AddDataItem ''/maps/image.TIF'',
         Data \<lparr> row = 0 \<rparr> 257, GetDataItemPath 5]
       = Inr \<lparr> m_dataItems = [DataItem_ctor ''/maps/image.TIF''] \<rparr>
   \<and> fileName (DataItem_ctor ''/maps/image.TIF'') = ''image.TIF''
   \<and> dataType (DataItem_ctor ''/maps/image.TIF'') = Raster"
proof -
  let ?m' = "addDataItem model2 ''c.png''"
  let ?ops = "[AddDataItem ''survey.shp'', GetDataItemType 0, Clear, AddDataItem ''/maps/image.TIF'',
         Data \<lparr> row = 0 \<rparr> 257, GetDataItemPath 5]"
  let ?m'' = "\<lparr> m_dataItems = [DataItem_ctor ''/maps/image.TIF''] \<rparr>"
  have s: "apply_operation roles_sample model2 (AddDataItem ''c.png'') = Inr ?m'"
    by simp
  have l: "length (m_dataItems model2) = 2" "length (m_dataItems ?m') = 3"
    by (simp_all add: model2_def addDataItem_def)
  have r: "apply_operations roles_sample DataItemListModel_ctor ?ops = Inr ?m''"
    by (simp add: DataItemListModel_ctor_def addDataItem_def clear_def getDataItemType_def
        getDataItemPath_def data_def QList_at_def)
  note t = items_never_mutated [of roles_sample model2 "AddDataItem ''c.png''" ?m' ?ops ?m'']
  from t have "apply_operation roles_sample model2 (AddDataItem ''c.png'') = Inr ?m' \<longrightarrow>
      (\<forall>i < length (m_dataItems ?m'). i < length (m_dataItems model2)
          \<longrightarrow> m_dataItems ?m' ! i = m_dataItems model2 ! i)
      \<and> (AddDataItem ''c.png'' \<noteq> Clear
          \<longrightarrow> take (length (m_dataItems model2)) (m_dataItems ?m') = m_dataItems model2)"
    by (elim conjE) assumption
  from this s have u: "(\<forall>i < length (m_dataItems ?m'). i < length (m_dataItems model2)
          \<longrightarrow> m_dataItems ?m' ! i = m_dataItems model2 ! i)
      \<and> (AddDataItem ''c.png'' \<noteq> Clear
          \<longrightarrow> take (length (m_dataItems model2)) (m_dataItems ?m') = m_dataItems model2)"
    by (rule mp)
  from u have "\<forall>i < length (m_dataItems ?m'). i < length (m_dataItems model2)
          \<longrightarrow> m_dataItems ?m' ! i = m_dataItems model2 ! i"
    by (rule conjunct1)
  from this [rule_format, of 1] l have a: "m_dataItems ?m' ! 1 = m_dataItems model2 ! 1"
    by simp
  from u have "AddDataItem ''c.png'' \<noteq> Clear
          \<longrightarrow> take (length (m_dataItems model2)) (m_dataItems ?m') = m_dataItems model2"
    by (rule conjunct2)
  with l have b: "take 2 (m_dataItems ?m') = m_dataItems model2"
    by simp
  from t have "apply_operations roles_sample DataItemListModel_ctor ?ops = Inr ?m'' \<longrightarrow>
        (\<forall>d \<in> set (m_dataItems ?m'').
           fileName d = QFileInfo_fileName (fullPath d)
           \<and> dataType d = layerType (QFileInfo_completeSuffix (fullPath d)))"
    by (elim conjE) assumption
  from this r have "\<forall>d \<in> set (m_dataItems ?m'').
           fileName d = QFileInfo_fileName (fullPath d)
           \<and> dataType d = layerType (QFileInfo_completeSuffix (fullPath d))"
    by (rule mp)
  then have "fileName (DataItem_ctor ''/maps/image.TIF'')
              = QFileInfo_fileName (fullPath (DataItem_ctor ''/maps/image.TIF''))
      \<and> dataType (DataItem_ctor ''/maps/image.TIF'')
              = layerType (QFileInfo_completeSuffix (fullPath (DataItem_ctor ''/maps/image.TIF'')))"
    by simp
  moreover have "fullPath (DataItem_ctor ''/maps/image.TIF'') = ''/maps/image.TIF''"
    by (simp add: DataItem_ctor_def)
  moreover have "QFileInfo_fileName ''/maps/image.TIF'' = ''image.TIF''"
    by (simp add: QFileInfo_fileName_def)
  moreover have "layerType (QFileInfo_completeSuffix ''/maps/image.TIF'') = Raster"
    by (simp add: path_defs classify_defs lower_defs rasterExtensions_def)
  ultimately have c: "fileName (DataItem_ctor ''/maps/image.TIF'') = ''image.TIF''"
    and d: "dataType (DataItem_ctor ''/maps/image.TIF'') = Raster"
    by simp_all
  from s a b r c d show ?thesis by (intro conjI)
qed

text \<open>
  Claim C9. Whenever an \<open>AlertSource\<close> is destroyed, \<open>noLongerValid\<close> is emitted and each
  connected slot is called before the object ends in the destructor of \<open>QObject\<close>, which
  is the last event and happens once.
\<close>

theorem AlertSource_dtor_notifies:
  "\<exists>before. AlertSource_dtor source = before @ [QObject_destroyed]
      \<and> QObject_destroyed \<notin> set before
      \<and> Emit_noLongerValid \<in> set before
      \<and> (\<forall>r \<in> set (connections source). Slot_called r \<in> set before)"
  by (rule exI [of _ "emit_noLongerValid source"])
     (auto simp: AlertSource_dtor_def emit_noLongerValid_def)

theorem AlertSource_dtor_notifies_witness:
  "Emit_noLongerValid \<in> set (butlast (AlertSource_dtor source2))
   \<and> Slot_called 7 \<in> set (butlast (AlertSource_dtor source2))
   \<and> Slot_called 9 \<in> set (butlast (AlertSource_dtor source2))
   \<and> QObject_destroyed \<notin> set (butlast (AlertSource_dtor source2))
   \<and> last (AlertSource_dtor source2) = QObject_destroyed"
proof -
  from AlertSource_dtor_notifies [of source2]
  obtain before where e: "AlertSource_dtor source2 = before @ [QObject_destroyed]"
    and d: "QObject_destroyed \<notin> set before"
    and n: "Emit_noLongerValid \<in> set before"
    and c: "\<forall>r \<in> set (connections source2). Slot_called r \<in> set before"
    by blast
  from e have b: "butlast (AlertSource_dtor source2) = before"
    and l: "last (AlertSource_dtor source2) = QObject_destroyed"
    by simp_all
  have "7 \<in> set (connections source2)" "9 \<in> set (connections source2)"
    by (simp_all add: source2_def)
  with c have "Slot_called 7 \<in> set before" "Slot_called 9 \<in> set before"
    by blast+
  with b l d n show ?thesis by simp
qed

end
